theory Spec2Isabelle
  imports Main
begin

section \<open>Admin command dispatcher of the recruiting bot (manager_bot/admin.py)\<close>

text \<open>
  The module is a set of chat command handlers. Each handler resolves the caller, checks
  it against the configured admin id, validates its arguments, checks a readiness
  predicate, calls one pipeline operation and confirms; an \<open>except Exception\<close> clause
  around the whole handler logs the exception and reports it through
  \<open>send_message_to_admin\<close>.

  Python strings are modelled as \<open>string\<close> holding the UTF-8 bytes of the text, so a
  literal of the source with characters outside ASCII is written byte by byte.
  Concatenation, joining and equality, the only string operations of the handlers, are
  the same on code points and on their UTF-8 encoding.
\<close>

subsection \<open>Exceptions and observable calls\<close>

text \<open>
  Exception classes. \<open>CancelledError\<close> (of asyncio, raised at an \<open>await\<close> when the task is
  cancelled) and \<open>OtherBaseException\<close> (\<open>KeyboardInterrupt\<close>, \<open>SystemExit\<close>) derive from
  \<open>BaseException\<close> only; all the others derive from \<open>Exception\<close>.
\<close>

datatype exn_class =
    ValueError | FileNotFoundError | TelegramError | RuntimeError | AttributeError
  | OtherException | CancelledError | OtherBaseException

text \<open>An exception object: its class and its message, \<open>str(e)\<close>.\<close>

datatype exn = Exn exn_class string

fun str_exn :: "exn \<Rightarrow> string" where
  "str_exn (Exn c m) = m"

text \<open>\<open>isinstance(e, Exception)\<close>: what an \<open>except Exception\<close> clause catches.\<close>

fun is_exception :: "exn \<Rightarrow> bool" where
  "is_exception (Exn c m) = (c \<noteq> CancelledError \<and> c \<noteq> OtherBaseException)"

text \<open>
  How an exception came to leave a block: by a \<open>raise\<close> statement of the handler itself
  that builds a new exception, or out of a callee. The \<open>except Exception\<close> clauses treat
  both alike.
\<close>

datatype failure = Raised exn | Propagated exn

fun exn_of :: "failure \<Rightarrow> exn" where
  "exn_of (Raised e) = e"
| "exn_of (Propagated e) = e"

text \<open>The pipeline-triggering operations imported from \<open>manager_bot\<close>, with their arguments.\<close>

datatype delegate =
    Inform_admin_about_user_readiness string
  | Define_sourcing_criterias string
  | Send_to_user_sourcing_criterias string
  | Source_negotiations string
  | Source_resumes string
  | Analyze_resume string
  | Update_resume_records_with_fresh_video string string
  | Recommend_resumes string

text \<open>
  The calls a handler makes to the outside, in the order it makes them:
  \<open>SendUser t\<close> is \<open>send_message_to_user(update, context, text=t)\<close>;
  \<open>Delegate d\<close> a pipeline operation;
  \<open>BotSendMessage c t\<close> is \<open>application.bot.send_message(chat_id=c, text=t)\<close>;
  \<open>FsExists p\<close> is \<open>Path.exists\<close> on \<open>p\<close>, \<open>FsOpen p\<close> is \<open>open(p, 'rb')\<close>;
  \<open>BotSendDocument c p n\<close> is \<open>application.bot.send_document\<close> with the open file \<open>p\<close>
  under the file name \<open>n\<close>;
  \<open>AdminReport t\<close> marks the call of \<open>send_message_to_admin\<close> from an \<open>except\<close> clause;
  \<open>LogException p\<close> is \<open>logger.error(f"p{e}", exc_info=True)\<close> in an \<open>except\<close> clause: the
  exception just caught is logged with its stack trace under the message that starts
  with \<open>p\<close>. The other log calls, which carry no exception, are not observed.
\<close>

datatype event =
    SendUser string
  | Delegate delegate
  | BotSendMessage int string
  | FsExists string
  | FsOpen string
  | BotSendDocument int string string
  | AdminReport string
  | LogException string

subsection \<open>The surroundings of a handler\<close>

datatype application = Application (has_bot: bool)

text \<open>
  \<open>update\<close>: what the handler reads from the incoming message. \<open>user_id_str\<close> is the
  outcome of \<open>str(get_tg_user_data_attribute_from_update_object(update, "id"))\<close>, which
  may raise; \<open>effective_chat\<close> is \<open>update.effective_chat.id\<close>, absent when the update has
  no chat.
\<close>

record update =
  user_id_str :: "exn + string"
  effective_chat :: "int option"

record context_t =
  args :: "string list option"
  application :: "application option"

text \<open>
  \<open>world\<close>: the process environment, the two message constants of
  \<open>services.constants\<close> (not part of this module, taken as parameters), and the
  answers of the collaborators. Every collaborator call may raise (\<open>Inl\<close>).
\<close>

record world =
  ADMIN_ID :: "string option"
  USERS_DATA_DIR :: "string option"
  FAIL_TO_IDENTIFY_USER_AS_ADMIN_TEXT :: string
  FAIL_TECHNICAL_SUPPORT_TEXT :: string
  send_message_to_user :: "string \<Rightarrow> exn + unit"
  bot_send_message :: "int \<Rightarrow> string \<Rightarrow> exn + unit"
  bot_send_document :: "int \<Rightarrow> string \<Rightarrow> string \<Rightarrow> exn + unit"
  get_list_of_users_from_records :: "exn + string"
  get_target_vacancy_id_from_records :: "string \<Rightarrow> exn + string"
  is_user_in_records :: "string \<Rightarrow> exn + bool"
  is_vacancy_description_recieved :: "string \<Rightarrow> exn + bool"
  is_vacancy_sourcing_criterias_recieved :: "string \<Rightarrow> exn + bool"
  is_vacancy_selected :: "string \<Rightarrow> exn + bool"
  is_vacany_data_enough_for_resume_analysis :: "string \<Rightarrow> exn + bool"
  run_delegate :: "delegate \<Rightarrow> exn + unit"
  path_exists :: "string \<Rightarrow> exn + bool"
  open_rb :: "string \<Rightarrow> exn + unit"

text \<open>\<open>os.getenv(name, default)\<close>.\<close>

definition getenv :: "string option \<Rightarrow> string \<Rightarrow> string" where
  "getenv v dflt = (case v of None \<Rightarrow> dflt | Some s \<Rightarrow> s)"

subsection \<open>Computations: a trace of calls and a result or a failure\<close>

type_synonym 'a io = "event list \<times> (failure + 'a)"

definition io_return :: "'a \<Rightarrow> 'a io" where
  "io_return x = ([], Inr x)"

definition io_raise :: "exn \<Rightarrow> 'a io" where
  "io_raise e = ([], Inl (Raised e))"

definition io_bind :: "'a io \<Rightarrow> ('a \<Rightarrow> 'b io) \<Rightarrow> 'b io" where
  "io_bind m f =
     (case m of
        (tr, Inl e) \<Rightarrow> (tr, Inl e)
      | (tr, Inr x) \<Rightarrow> (case f x of (tr', r) \<Rightarrow> (tr @ tr', r)))"

text \<open>A collaborator call that is observed, and one that only answers.\<close>

definition io_call :: "event \<Rightarrow> exn + 'a \<Rightarrow> 'a io" where
  "io_call ev r = ([ev], case r of Inl e \<Rightarrow> Inl (Propagated e) | Inr x \<Rightarrow> Inr x)"

definition io_ask :: "exn + 'a \<Rightarrow> 'a io" where
  "io_ask r = ([], case r of Inl e \<Rightarrow> Inl (Propagated e) | Inr x \<Rightarrow> Inr x)"

text \<open>
  \<open>try: m  except Exception as e: h e\<close>. An exception that is no \<open>Exception\<close> passes
  through the clause.
\<close>

definition io_try :: "'a io \<Rightarrow> (failure \<Rightarrow> 'a io) \<Rightarrow> 'a io" where
  "io_try m h =
     (case m of
        (tr, Inr x) \<Rightarrow> (tr, Inr x)
      | (tr, Inl e) \<Rightarrow>
          if is_exception (exn_of e) then (case h e of (tr', r) \<Rightarrow> (tr @ tr', r))
          else (tr, Inl e))"

text \<open>\<open>logger.error(..., exc_info=True)\<close>.\<close>

definition io_log :: "string \<Rightarrow> unit io" where
  "io_log p = ([LogException p], Inr ())"

subsection \<open>\<open>int(s)\<close> on a string\<close>

text \<open>
  CPython's \<open>int\<close> on a \<open>str\<close>, base 10. The text is first brought to ASCII: a code point
  below 127 stays, a Unicode whitespace character becomes a space, a Unicode decimal
  digit (general category Nd) becomes its ASCII digit, anything else a character that
  cannot be parsed. Then C whitespace is dropped at both ends, one sign is allowed, and
  decimal digits follow, with single underscores between digits and at most 4300
  digits (the default limit of \<open>sys.set_int_max_str_digits\<close>). \<open>None\<close> is \<open>ValueError\<close>.
  The information separators 0x1C to 0x1F are whitespace for \<open>str\<close> but, being below
  127, stay as they are and are not dropped.
\<close>

text \<open>The code points of a UTF-8 byte string; an ill-formed byte gives U+FFFD.\<close>

definition continuation :: "nat \<Rightarrow> bool" where
  "continuation b = (128 \<le> b \<and> b < 192)"

fun utf8_decode :: "nat list \<Rightarrow> nat list" where
  "utf8_decode [] = []"
| "utf8_decode (a # bs) =
     (if a < 128 then a # utf8_decode bs
      else if 192 \<le> a \<and> a < 224 then
        (case bs of
           b # r \<Rightarrow>
             if continuation b then ((a - 192) * 64 + (b - 128)) # utf8_decode r
             else 65533 # utf8_decode bs
         | [] \<Rightarrow> [65533])
      else if 224 \<le> a \<and> a < 240 then
        (case bs of
           b # c # r \<Rightarrow>
             if continuation b \<and> continuation c
             then ((a - 224) * 4096 + (b - 128) * 64 + (c - 128)) # utf8_decode r
             else 65533 # utf8_decode bs
         | _ \<Rightarrow> 65533 # utf8_decode bs)
      else if 240 \<le> a \<and> a < 248 then
        (case bs of
           b # c # d # r \<Rightarrow>
             if continuation b \<and> continuation c \<and> continuation d
             then ((a - 240) * 262144 + (b - 128) * 4096 + (c - 128) * 64 + (d - 128))
                  # utf8_decode r
             else 65533 # utf8_decode bs
         | _ \<Rightarrow> 65533 # utf8_decode bs)
      else 65533 # utf8_decode bs)"

text \<open>\<open>Py_UNICODE_ISSPACE\<close> from 127 on.\<close>

definition unicode_space :: "nat \<Rightarrow> bool" where
  "unicode_space cp =
     (cp \<in> {0x85, 0xA0, 0x1680, 0x2028, 0x2029, 0x202F, 0x205F, 0x3000}
      \<or> (0x2000 \<le> cp \<and> cp \<le> 0x200A))"

text \<open>
  The digit zero of every run of ten decimal digits beyond ASCII (Unicode 14.0, the
  database of CPython 3.11).
\<close>

definition decimal_zeros :: "nat list" where
  "decimal_zeros =
     [0x660, 0x6F0, 0x7C0, 0x966, 0x9E6, 0xA66, 0xAE6, 0xB66, 0xBE6, 0xC66, 0xCE6, 0xD66,
      0xDE6, 0xE50, 0xED0, 0xF20, 0x1040, 0x1090, 0x17E0, 0x1810, 0x1946, 0x19D0, 0x1A80,
      0x1A90, 0x1B50, 0x1BB0, 0x1C40, 0x1C50, 0xA620, 0xA8D0, 0xA900, 0xA9D0, 0xA9F0,
      0xAA50, 0xABF0, 0xFF10, 0x104A0, 0x10D30, 0x11066, 0x110F0, 0x11136, 0x111D0,
      0x112F0, 0x11450, 0x114D0, 0x11650, 0x116C0, 0x11730, 0x118E0, 0x11950, 0x11C50,
      0x11D50, 0x11DA0, 0x16A60, 0x16AC0, 0x16B50, 0x1D7CE, 0x1D7D8, 0x1D7E2, 0x1D7EC,
      0x1D7F6, 0x1E140, 0x1E2F0, 0x1E950, 0x1FBF0]"

text \<open>\<open>Py_UNICODE_TODECIMAL\<close> from 127 on.\<close>

definition to_decimal :: "nat \<Rightarrow> nat option" where
  "to_decimal cp =
     (case filter (\<lambda>z. z \<le> cp \<and> cp < z + 10) decimal_zeros of
        [] \<Rightarrow> None
      | z # zs \<Rightarrow> Some (cp - z))"

definition to_ascii :: "nat \<Rightarrow> char" where
  "to_ascii cp =
     (if cp < 127 then char_of cp
      else if unicode_space cp then CHR '' ''
      else (case to_decimal cp of None \<Rightarrow> CHR ''?'' | Some d \<Rightarrow> char_of (48 + d)))"

definition is_digit :: "char \<Rightarrow> bool" where
  "is_digit c = (c \<in> set ''0123456789'')"

text \<open>\<open>Py_ISSPACE\<close>.\<close>

definition is_space :: "char \<Rightarrow> bool" where
  "is_space c = (c \<in> {CHR '' '', CHR 0x09, CHR 0x0A, CHR 0x0B, CHR 0x0C, CHR 0x0D})"

definition digit_val :: "char \<Rightarrow> int" where
  "digit_val c = int (of_char c) - 48"

fun digits_value :: "int \<Rightarrow> string \<Rightarrow> int option" where
  "digits_value acc [] = Some acc"
| "digits_value acc [c] = (if is_digit c then Some (10 * acc + digit_val c) else None)"
| "digits_value acc (c # d # cs) =
     (if is_digit c then
        (if d = CHR ''_'' then
           (case cs of [] \<Rightarrow> None
            | e # es \<Rightarrow> if is_digit e then digits_value (10 * acc + digit_val c) cs else None)
         else digits_value (10 * acc + digit_val c) (d # cs))
      else None)"

definition strip :: "string \<Rightarrow> string" where
  "strip s = rev (dropWhile is_space (rev (dropWhile is_space s)))"

definition unsigned_value :: "string \<Rightarrow> int option" where
  "unsigned_value ds =
     (if ds = [] \<or> 4300 < length (filter is_digit ds) then None else digits_value 0 ds)"

definition py_int :: "string \<Rightarrow> int option" where
  "py_int s =
     (let t = strip (map to_ascii (utf8_decode (map of_char s)))
      in if t = [] then None
         else if hd t = CHR ''-'' then
           (case unsigned_value (tl t) of None \<Rightarrow> None | Some n \<Rightarrow> Some (- n))
         else if hd t = CHR ''+'' then unsigned_value (tl t)
         else unsigned_value t)"


subsection \<open>The notification helper\<close>

text \<open>\<open>application and application.bot\<close>.\<close>

definition app_and_bot :: "application option \<Rightarrow> bool" where
  "app_and_bot app = (case app of None \<Rightarrow> False | Some a \<Rightarrow> has_bot a)"

text \<open>
  The \<open>try\<close> of the helper covers \<open>int(admin_id)\<close> and the send: a \<open>ValueError\<close> of the
  first and an \<open>Exception\<close> of the second end in the same logging \<open>except\<close> clause.
\<close>

definition send_message_to_admin :: "world \<Rightarrow> application option \<Rightarrow> string \<Rightarrow> unit io" where
  "send_message_to_admin w app text =
     (let admin_id = getenv (ADMIN_ID w) '''' in
      if admin_id = [] then io_return ()
      else if app_and_bot app then
        (case py_int admin_id of
           None \<Rightarrow> io_log ''send_message_to_admin: Failed to send admin notification: ''
         | Some chat_id \<Rightarrow>
             io_try
               (io_call (BotSendMessage chat_id text) (bot_send_message w chat_id text))
               (\<lambda>e. io_log ''send_message_to_admin: Failed to send admin notification: ''))
      else io_return ())"

subsection \<open>Pieces every handler repeats\<close>

definition send_user :: "world \<Rightarrow> string \<Rightarrow> unit io" where
  "send_user w text = io_call (SendUser text) (send_message_to_user w text)"

definition call_delegate :: "world \<Rightarrow> delegate \<Rightarrow> unit io" where
  "call_delegate w d = io_call (Delegate d) (run_delegate w d)"

text \<open>\<open>not admin_id or bot_user_id != admin_id\<close>, with \<open>admin_id = os.getenv("ADMIN_ID", "")\<close>.\<close>

definition not_admin :: "world \<Rightarrow> string \<Rightarrow> bool" where
  "not_admin w bot_user_id =
     (let admin_id = getenv (ADMIN_ID w) '''' in admin_id = [] \<or> bot_user_id \<noteq> admin_id)"

text \<open>\<open>context.args\<close> read as a list: \<open>None\<close> and the empty list are both falsy.\<close>

definition arg_list :: "context_t \<Rightarrow> string list" where
  "arg_list c = (case args c of None \<Rightarrow> [] | Some xs \<Rightarrow> xs)"

text \<open>\<open>bot_user_id if 'bot_user_id' in locals() else 'unknown'\<close>: the name is bound exactly
  when the first statement of the handler returned.\<close>

definition caller_or_unknown :: "update \<Rightarrow> string" where
  "caller_or_unknown u = (case user_id_str u of Inl e \<Rightarrow> ''unknown'' | Inr s \<Rightarrow> s)"

definition warning_sign :: string where
  "warning_sign = [CHR 0xE2, CHR 0x9A, CHR 0xA0, CHR 0xEF, CHR 0xB8, CHR 0x8F]"

text \<open>The text of an error report: \<open>f"<sign> Error <label>: {e}\nAdmin ID: {...}"\<close>.\<close>

definition error_report_text :: "string \<Rightarrow> failure \<Rightarrow> update \<Rightarrow> string" where
  "error_report_text label f u =
     warning_sign @ '' Error '' @ label @ '': '' @ str_exn (exn_of f) @ [CHR 0x0A]
       @ ''Admin ID: '' @ caller_or_unknown u"

text \<open>\<open>if context.application: await send_message_to_admin(application=..., text=...)\<close>.\<close>

definition report_to_admin :: "world \<Rightarrow> context_t \<Rightarrow> string \<Rightarrow> unit io" where
  "report_to_admin w c text =
     (if application c \<noteq> None then
        io_bind ([AdminReport text], Inr ()) (\<lambda>_. send_message_to_admin w (application c) text)
      else io_return ())"

subsection \<open>The handlers\<close>

text \<open>Each handler is its \<open>try\<close> block (\<open>_body\<close>) under its \<open>except Exception\<close> clause.\<close>

definition admin_get_users_body :: "world \<Rightarrow> update \<Rightarrow> context_t \<Rightarrow> unit io" where
  "admin_get_users_body w u c =
     io_bind (io_ask (user_id_str u)) (\<lambda>bot_user_id.
       if not_admin w bot_user_id then send_user w (FAIL_TO_IDENTIFY_USER_AS_ADMIN_TEXT w)
       else
         io_bind (io_ask (get_list_of_users_from_records w)) (\<lambda>user_ids.
           send_user w ([CHR 0xF0, CHR 0x9F, CHR 0x93, CHR 0x8B] @ '' List of users: '' @ user_ids)))"

definition admin_get_users_command :: "world \<Rightarrow> update \<Rightarrow> context_t \<Rightarrow> unit io" where
  "admin_get_users_command w u c =
     io_try (admin_get_users_body w u c)
       (\<lambda>e. io_bind
              (io_log (''admin_get_users_command: ''
                 @ ''Failed to execute admin_get_list_of_users command: ''))
              (\<lambda>_. report_to_admin w c
                     (error_report_text ''admin_get_users_command'' e u)))"

definition admin_get_user_status_body :: "world \<Rightarrow> update \<Rightarrow> context_t \<Rightarrow> unit io" where
  "admin_get_user_status_body w u c =
     io_bind (io_ask (user_id_str u)) (\<lambda>bot_user_id.
       if not_admin w bot_user_id then send_user w (FAIL_TO_IDENTIFY_USER_AS_ADMIN_TEXT w)
       else if arg_list c \<noteq> [] \<and> length (arg_list c) = 1 then
         (let target_user_id = hd (arg_list c) in
          if target_user_id \<noteq> [] then
            io_bind (io_ask (is_user_in_records w target_user_id)) (\<lambda>found.
              if found then call_delegate w (Inform_admin_about_user_readiness target_user_id)
              else io_raise (Exn ValueError (''User '' @ target_user_id @ '' not found in records.'')))
          else io_raise (Exn ValueError ''Invalid command arguments.''))
       else io_raise (Exn ValueError ''Invalid number of arguments.''))"

definition admin_get_user_status_command :: "world \<Rightarrow> update \<Rightarrow> context_t \<Rightarrow> unit io" where
  "admin_get_user_status_command w u c =
     io_try (admin_get_user_status_body w u c)
       (\<lambda>e. io_bind
              (io_log ''admin_get_user_status_command: Failed to execute command: '')
              (\<lambda>_. report_to_admin w c
                     (error_report_text ''admin_get_user_status_command'' e u)))"

definition admin_anazlyze_sourcing_criterais_body :: "world \<Rightarrow> update \<Rightarrow> context_t \<Rightarrow> unit io" where
  "admin_anazlyze_sourcing_criterais_body w u c =
     io_bind (io_ask (user_id_str u)) (\<lambda>bot_user_id.
       if not_admin w bot_user_id then send_user w (FAIL_TO_IDENTIFY_USER_AS_ADMIN_TEXT w)
       else if arg_list c \<noteq> [] \<and> length (arg_list c) = 1 then
         (let target_user_id = hd (arg_list c) in
          if target_user_id \<noteq> [] then
            io_bind (io_ask (is_user_in_records w target_user_id)) (\<lambda>found.
              if found then
                io_bind (io_ask (is_vacancy_description_recieved w target_user_id)) (\<lambda>ready.
                  if ready then
                    io_bind (call_delegate w (Define_sourcing_criterias target_user_id)) (\<lambda>_.
                      send_user w (''Taks for analysing sourcing criterias is in task_queue for user ''
                                   @ target_user_id @ ''.''))
                  else io_raise (Exn ValueError
                         (''User '' @ target_user_id @ '' does not have vacancy description received.'')))
              else io_raise (Exn ValueError (''User '' @ target_user_id @ '' not found in records.'')))
          else io_raise (Exn ValueError ''Invalid command arguments.''))
       else io_raise (Exn ValueError ''Invalid number of arguments.''))"

definition admin_anazlyze_sourcing_criterais_command :: "world \<Rightarrow> update \<Rightarrow> context_t \<Rightarrow> unit io" where
  "admin_anazlyze_sourcing_criterais_command w u c =
     io_try (admin_anazlyze_sourcing_criterais_body w u c)
       (\<lambda>e. io_bind
              (io_log (''admin_anazlyze_sourcing_criterais_command: ''
                 @ ''Failed to execute command: ''))
              (\<lambda>_. report_to_admin w c
                     (error_report_text ''admin_anazlyze_sourcing_criterais_command'' e u)))"

definition admin_send_sourcing_criterais_to_user_body :: "world \<Rightarrow> update \<Rightarrow> context_t \<Rightarrow> unit io" where
  "admin_send_sourcing_criterais_to_user_body w u c =
     io_bind (io_ask (user_id_str u)) (\<lambda>bot_user_id.
       if not_admin w bot_user_id then send_user w (FAIL_TO_IDENTIFY_USER_AS_ADMIN_TEXT w)
       else if arg_list c \<noteq> [] \<and> length (arg_list c) = 1 then
         (let target_user_id = hd (arg_list c) in
          if target_user_id \<noteq> [] then
            io_bind (io_ask (is_user_in_records w target_user_id)) (\<lambda>found.
              if found then
                io_bind (io_ask (is_vacancy_sourcing_criterias_recieved w target_user_id)) (\<lambda>ready.
                  if ready then
                    io_bind (call_delegate w (Send_to_user_sourcing_criterias target_user_id)) (\<lambda>_.
                      send_user w (''Sourcing criterias sent to user '' @ target_user_id @ ''.''))
                  else io_raise (Exn ValueError
                         (''User '' @ target_user_id
                          @ '' does not have enough vacancy data for resume analysis.'')))
              else io_raise (Exn ValueError (''User '' @ target_user_id @ '' not found in records.'')))
          else io_raise (Exn ValueError ''Invalid command arguments.''))
       else io_raise (Exn ValueError ''Invalid number of arguments.''))"

definition admin_send_sourcing_criterais_to_user_command :: "world \<Rightarrow> update \<Rightarrow> context_t \<Rightarrow> unit io" where
  "admin_send_sourcing_criterais_to_user_command w u c =
     io_try (admin_send_sourcing_criterais_to_user_body w u c)
       (\<lambda>e. io_bind
              (io_log ''admin_send_sourcing_criterais_to_user_command: Failed: '')
              (\<lambda>_. report_to_admin w c
                     (error_report_text ''admin_send_sourcing_criterais_to_user_command'' e u)))"

definition admin_update_negotiations_body :: "world \<Rightarrow> update \<Rightarrow> context_t \<Rightarrow> unit io" where
  "admin_update_negotiations_body w u c =
     io_bind (io_ask (user_id_str u)) (\<lambda>bot_user_id.
       if not_admin w bot_user_id then send_user w (FAIL_TO_IDENTIFY_USER_AS_ADMIN_TEXT w)
       else if arg_list c \<noteq> [] \<and> length (arg_list c) = 1 then
         (let target_user_id = hd (arg_list c) in
          if target_user_id \<noteq> [] then
            io_bind (io_ask (is_user_in_records w target_user_id)) (\<lambda>found.
              if found then
                io_bind (io_ask (is_vacancy_selected w target_user_id)) (\<lambda>ready.
                  if ready then
                    io_bind (call_delegate w (Source_negotiations target_user_id)) (\<lambda>_.
                      send_user w (''Negotiations collection updated for user '' @ target_user_id @ ''.''))
                  else io_raise (Exn ValueError
                         (''User '' @ target_user_id
                          @ '' does not have enough vacancy data for resume analysis.'')))
              else io_raise (Exn ValueError (''User '' @ target_user_id @ '' not found in records.'')))
          else io_raise (Exn ValueError ''Invalid command arguments.''))
       else io_raise (Exn ValueError ''Invalid number of arguments.''))"

definition admin_update_negotiations_command :: "world \<Rightarrow> update \<Rightarrow> context_t \<Rightarrow> unit io" where
  "admin_update_negotiations_command w u c =
     io_try (admin_update_negotiations_body w u c)
       (\<lambda>e. io_bind
              (io_log ''admin_update_negotiations_command: Failed to execute command: '')
              (\<lambda>_. report_to_admin w c
                     (error_report_text ''admin_update_negotiations_command'' e u)))"

definition admin_get_fresh_resumes_body :: "world \<Rightarrow> update \<Rightarrow> context_t \<Rightarrow> unit io" where
  "admin_get_fresh_resumes_body w u c =
     io_bind (io_ask (user_id_str u)) (\<lambda>bot_user_id.
       if not_admin w bot_user_id then send_user w (FAIL_TO_IDENTIFY_USER_AS_ADMIN_TEXT w)
       else if arg_list c \<noteq> [] \<and> length (arg_list c) = 1 then
         (let target_user_id = hd (arg_list c) in
          if target_user_id \<noteq> [] then
            io_bind (io_ask (is_user_in_records w target_user_id)) (\<lambda>found.
              if found then
                io_bind (io_ask (is_vacany_data_enough_for_resume_analysis w target_user_id)) (\<lambda>ready.
                  if ready then
                    io_bind (call_delegate w (Source_resumes target_user_id)) (\<lambda>_.
                      send_user w (''Fresh resumes collected for user '' @ target_user_id @ ''.''))
                  else io_raise (Exn ValueError
                         (''User '' @ target_user_id
                          @ '' does not have enough vacancy data for resume analysis.'')))
              else io_raise (Exn ValueError (''User '' @ target_user_id @ '' not found in records.'')))
          else io_raise (Exn ValueError ''Invalid command arguments.''))
       else io_raise (Exn ValueError ''Invalid number of arguments.''))"

definition admin_get_fresh_resumes_command :: "world \<Rightarrow> update \<Rightarrow> context_t \<Rightarrow> unit io" where
  "admin_get_fresh_resumes_command w u c =
     io_try (admin_get_fresh_resumes_body w u c)
       (\<lambda>e. io_bind
              (io_log ''admin_get_fresh_resumes_command: Failed to execute command: '')
              (\<lambda>_. report_to_admin w c
                     (error_report_text ''admin_get_fresh_resumes_command'' e u)))"

definition admin_anazlyze_resumes_body :: "world \<Rightarrow> update \<Rightarrow> context_t \<Rightarrow> unit io" where
  "admin_anazlyze_resumes_body w u c =
     io_bind (io_ask (user_id_str u)) (\<lambda>bot_user_id.
       if not_admin w bot_user_id then send_user w (FAIL_TO_IDENTIFY_USER_AS_ADMIN_TEXT w)
       else if arg_list c \<noteq> [] \<and> length (arg_list c) = 1 then
         (let target_user_id = hd (arg_list c) in
          if target_user_id \<noteq> [] then
            io_bind (io_ask (is_user_in_records w target_user_id)) (\<lambda>found.
              if found then
                io_bind (io_ask (is_vacany_data_enough_for_resume_analysis w target_user_id)) (\<lambda>ready.
                  if ready then
                    io_bind (send_user w
                        (''Start creating tasks for analysis of the fresh resumes for user ''
                         @ target_user_id @ ''.'')) (\<lambda>_.
                    io_bind (call_delegate w (Analyze_resume target_user_id)) (\<lambda>_.
                      send_user w (''Analysis of fresh resumes is done for user ''
                                   @ target_user_id @ ''.'')))
                  else io_raise (Exn ValueError
                         (''User '' @ target_user_id
                          @ '' does not have enough vacancy data for resume analysis.'')))
              else io_raise (Exn ValueError (''User '' @ target_user_id @ '' not found in records.'')))
          else io_raise (Exn ValueError ''Invalid command arguments.''))
       else io_raise (Exn ValueError ''Invalid number of arguments.''))"

definition admin_anazlyze_resumes_command :: "world \<Rightarrow> update \<Rightarrow> context_t \<Rightarrow> unit io" where
  "admin_anazlyze_resumes_command w u c =
     io_try (admin_anazlyze_resumes_body w u c)
       (\<lambda>e. io_bind
              (io_log ''admin_anazlyze_resumes_command: Failed to execute command: '')
              (\<lambda>_. report_to_admin w c
                     (error_report_text ''admin_anazlyze_resumes_command'' e u)))"

definition admin_update_resume_records_with_applicants_video_status_body ::
  "world \<Rightarrow> update \<Rightarrow> context_t \<Rightarrow> unit io" where
  "admin_update_resume_records_with_applicants_video_status_body w u c =
     io_bind (io_ask (user_id_str u)) (\<lambda>bot_user_id.
       if not_admin w bot_user_id then send_user w (FAIL_TO_IDENTIFY_USER_AS_ADMIN_TEXT w)
       else if arg_list c \<noteq> [] \<and> length (arg_list c) = 1 then
         (let target_user_id = hd (arg_list c) in
          if target_user_id \<noteq> [] then
            io_bind (io_ask (is_user_in_records w target_user_id)) (\<lambda>found.
              if found then
                io_bind (io_ask (is_vacany_data_enough_for_resume_analysis w target_user_id)) (\<lambda>ready.
                  if ready then
                    io_bind (io_ask (get_target_vacancy_id_from_records w target_user_id))
                      (\<lambda>target_user_vacancy_id.
                    io_bind (call_delegate w
                        (Update_resume_records_with_fresh_video target_user_id target_user_vacancy_id))
                      (\<lambda>_.
                      send_user w (''Resume records updated with fresh videos from applicants for user ''
                                   @ target_user_id @ ''.'')))
                  else io_raise (Exn ValueError
                         (''User '' @ target_user_id
                          @ '' does not have enough vacancy data for resume analysis.'')))
              else io_raise (Exn ValueError (''User '' @ target_user_id @ '' not found in records.'')))
          else io_raise (Exn ValueError ''Invalid command arguments.''))
       else io_raise (Exn ValueError ''Invalid number of arguments.''))"

definition admin_update_resume_records_with_applicants_video_status_command ::
  "world \<Rightarrow> update \<Rightarrow> context_t \<Rightarrow> unit io" where
  "admin_update_resume_records_with_applicants_video_status_command w u c =
     io_try (admin_update_resume_records_with_applicants_video_status_body w u c)
       (\<lambda>e. io_bind
              (io_log (''admin_update_resume_records_with_applicants_video_status_command: ''
                 @ ''Failed to execute command: ''))
              (\<lambda>_. report_to_admin w c
                     (error_report_text
                        ''admin_update_resume_records_with_applicants_video_status_command''
                        e u)))"

definition admin_recommend_resumes_body :: "world \<Rightarrow> update \<Rightarrow> context_t \<Rightarrow> unit io" where
  "admin_recommend_resumes_body w u c =
     io_bind (io_ask (user_id_str u)) (\<lambda>bot_user_id.
       if not_admin w bot_user_id then send_user w (FAIL_TO_IDENTIFY_USER_AS_ADMIN_TEXT w)
       else if arg_list c \<noteq> [] \<and> length (arg_list c) = 1 then
         (let target_user_id = hd (arg_list c) in
          if target_user_id \<noteq> [] then
            io_bind (io_ask (is_user_in_records w target_user_id)) (\<lambda>found.
              if found then
                io_bind (io_ask (is_vacany_data_enough_for_resume_analysis w target_user_id)) (\<lambda>ready.
                  if ready then
                    io_bind (call_delegate w (Recommend_resumes target_user_id)) (\<lambda>_.
                      send_user w ''Recommending resumes is triggered for user {target_user_id}.'')
                  else io_raise (Exn ValueError
                         (''User '' @ target_user_id
                          @ '' does not have enough vacancy data for resume analysis.'')))
              else io_raise (Exn ValueError (''User '' @ target_user_id @ '' not found in records.'')))
          else io_raise (Exn ValueError ''Invalid command arguments.''))
       else io_raise (Exn ValueError ''Invalid number of arguments.''))"

definition admin_recommend_resumes_command :: "world \<Rightarrow> update \<Rightarrow> context_t \<Rightarrow> unit io" where
  "admin_recommend_resumes_command w u c =
     io_try (admin_recommend_resumes_body w u c)
       (\<lambda>e. io_bind
              (io_log ''admin_recommend_resumes_command: Failed to execute command: '')
              (\<lambda>_. report_to_admin w c
                     (error_report_text ''admin_recommend_resumes_command'' e u)))"

subsection \<open>Relaying a message\<close>

text \<open>\<open>sep.join(xs)\<close>.\<close>

fun py_join :: "string \<Rightarrow> string list \<Rightarrow> string" where
  "py_join sep [] = []"
| "py_join sep [x] = x"
| "py_join sep (x # y # ys) = x @ sep @ py_join sep (y # ys)"

definition message_sent_prefix :: string where
  "message_sent_prefix =
     [CHR 0xE2, CHR 0x9C, CHR 0x85] @ '' ''
     @ [CHR 0xD0, CHR 0xA1, CHR 0xD0, CHR 0xBE, CHR 0xD0, CHR 0xBE, CHR 0xD0, CHR 0xB1, CHR 0xD1,
        CHR 0x89, CHR 0xD0, CHR 0xB5, CHR 0xD0, CHR 0xBD, CHR 0xD0, CHR 0xB8, CHR 0xD0, CHR 0xB5]
     @ '' ''
     @ [CHR 0xD0, CHR 0xBE, CHR 0xD1, CHR 0x82, CHR 0xD0, CHR 0xBF, CHR 0xD1, CHR 0x80, CHR 0xD0,
        CHR 0xB0, CHR 0xD0, CHR 0xB2, CHR 0xD0, CHR 0xBB, CHR 0xD0, CHR 0xB5, CHR 0xD0, CHR 0xBD,
        CHR 0xD0, CHR 0xBE]
     @ '' ''
     @ [CHR 0xD0, CHR 0xBF, CHR 0xD0, CHR 0xBE, CHR 0xD0, CHR 0xBB, CHR 0xD1, CHR 0x8C, CHR 0xD0,
        CHR 0xB7, CHR 0xD0, CHR 0xBE, CHR 0xD0, CHR 0xB2, CHR 0xD0, CHR 0xB0, CHR 0xD1, CHR 0x82,
        CHR 0xD0, CHR 0xB5, CHR 0xD0, CHR 0xBB, CHR 0xD1, CHR 0x8E]
     @ '' ''"

definition message_failed_prefix :: string where
  "message_failed_prefix =
     [CHR 0xE2, CHR 0x9D, CHR 0x8C] @ '' ''
     @ [CHR 0xD0, CHR 0x9D, CHR 0xD0, CHR 0xB5] @ '' ''
     @ [CHR 0xD1, CHR 0x83, CHR 0xD0, CHR 0xB4, CHR 0xD0, CHR 0xB0, CHR 0xD0, CHR 0xBB, CHR 0xD0,
        CHR 0xBE, CHR 0xD1, CHR 0x81, CHR 0xD1, CHR 0x8C]
     @ '' ''
     @ [CHR 0xD0, CHR 0xBE, CHR 0xD1, CHR 0x82, CHR 0xD0, CHR 0xBF, CHR 0xD1, CHR 0x80, CHR 0xD0,
        CHR 0xB0, CHR 0xD0, CHR 0xB2, CHR 0xD0, CHR 0xB8, CHR 0xD1, CHR 0x82, CHR 0xD1, CHR 0x8C]
     @ '' ''
     @ [CHR 0xD1, CHR 0x81, CHR 0xD0, CHR 0xBE, CHR 0xD0, CHR 0xBE, CHR 0xD0, CHR 0xB1, CHR 0xD1,
        CHR 0x89, CHR 0xD0, CHR 0xB5, CHR 0xD0, CHR 0xBD, CHR 0xD0, CHR 0xB8, CHR 0xD0, CHR 0xB5]
     @ '' ''
     @ [CHR 0xD0, CHR 0xBF, CHR 0xD0, CHR 0xBE, CHR 0xD0, CHR 0xBB, CHR 0xD1, CHR 0x8C, CHR 0xD0,
        CHR 0xB7, CHR 0xD0, CHR 0xBE, CHR 0xD0, CHR 0xB2, CHR 0xD0, CHR 0xB0, CHR 0xD1, CHR 0x82,
        CHR 0xD0, CHR 0xB5, CHR 0xD0, CHR 0xBB, CHR 0xD1, CHR 0x8E]
     @ '' ''"

text \<open>
  The inner \<open>try\<close> of the relay: the send and the confirmation; on an \<open>Exception\<close> the
  failure line goes to the caller, the exception is logged and raised again. The
  \<open>except\<close> clause of the handler logs, sends the caller the technical-failure notice
  and only then reports to the admin.
\<close>

definition admin_send_message_body :: "world \<Rightarrow> update \<Rightarrow> context_t \<Rightarrow> unit io" where
  "admin_send_message_body w u c =
     io_bind (io_ask (user_id_str u)) (\<lambda>bot_user_id.
       if not_admin w bot_user_id then send_user w (FAIL_TO_IDENTIFY_USER_AS_ADMIN_TEXT w)
       else if arg_list c = [] \<or> length (arg_list c) < 2 then
         io_raise (Exn ValueError ''Invalid number of arguments.'')
       else
         (let target_user_id = hd (arg_list c);
              message_text = py_join '' '' (tl (arg_list c))
          in io_bind
               (case py_int target_user_id of
                  None \<Rightarrow> io_raise (Exn ValueError ''Invalid command arguments.'')
                | Some n \<Rightarrow> io_return n)
               (\<lambda>target_user_id_int.
                  if app_and_bot (application c) then
                    io_try
                      (io_bind (io_call (BotSendMessage target_user_id_int message_text)
                                  (bot_send_message w target_user_id_int message_text)) (\<lambda>_.
                         send_user w (message_sent_prefix @ target_user_id @ '':'' @ [CHR 0x0A]
                                      @ [CHR 0x27] @ message_text @ [CHR 0x27])))
                      (\<lambda>send_err.
                         io_bind (send_user w (message_failed_prefix @ target_user_id @ '': ''
                                               @ str_exn (exn_of send_err))) (\<lambda>_.
                         io_bind (io_log (''Failed to send message to user '' @ target_user_id
                                          @ '': '')) (\<lambda>_.
                           ([], Inl send_err))))
                  else io_raise (Exn ValueError ''Application or bot instance not available''))))"

definition admin_send_message_command :: "world \<Rightarrow> update \<Rightarrow> context_t \<Rightarrow> unit io" where
  "admin_send_message_command w u c =
     io_try (admin_send_message_body w u c)
       (\<lambda>e. io_bind (io_log ''Failed to execute admin_send_message_to_user command: '') (\<lambda>_.
            io_bind (send_user w (FAIL_TECHNICAL_SUPPORT_TEXT w)) (\<lambda>_.
              report_to_admin w c
                (warning_sign @ '' Error executing admin_send_message_to_user command: ''
                 @ str_exn (exn_of e) @ [CHR 0x0A] @ ''Admin ID: '' @ caller_or_unknown u))))"

subsection \<open>Paths (pathlib on POSIX)\<close>

text \<open>\<open>s.split(sep)\<close> with a one-character separator.\<close>

fun split_on :: "char \<Rightarrow> string \<Rightarrow> string list" where
  "split_on sep [] = [[]]"
| "split_on sep (x # xs) =
     (if x = sep then [] # split_on sep xs
      else (case split_on sep xs of [] \<Rightarrow> [[x]] | y # ys \<Rightarrow> (x # y) # ys))"

text \<open>\<open>posixpath.join(a, b)\<close>: an absolute second component replaces the first.\<close>

definition posix_join :: "string \<Rightarrow> string \<Rightarrow> string" where
  "posix_join a b =
     (if b \<noteq> [] \<and> hd b = CHR ''/'' then b
      else if a = [] \<or> last a = CHR ''/'' then a @ b
      else a @ ''/'' @ b)"

text \<open>A parsed path: its root (\<open>''\<close>, \<open>/\<close> or \<open>//\<close>) and its components.\<close>

datatype path = Path (root: string) (parts: "string list")

text \<open>\<open>posixpath.splitroot\<close>: exactly two leading slashes are a root of their own.\<close>

definition splitroot :: "string \<Rightarrow> string \<times> string" where
  "splitroot p =
     (if take 1 p \<noteq> ''/'' then ([], p)
      else if take 1 (drop 1 p) \<noteq> ''/'' \<or> take 1 (drop 2 p) = ''/'' then (''/'', drop 1 p)
      else (take 2 p, drop 2 p))"

definition parse_path :: "string \<Rightarrow> path" where
  "parse_path s =
     (if s = [] then Path [] []
      else (case splitroot s of
              (r, rel) \<Rightarrow> Path r (filter (\<lambda>x. x \<noteq> [] \<and> x \<noteq> ''.'') (split_on CHR ''/'' rel))))"

text \<open>\<open>Path(a) / b\<close> for a string \<open>b\<close>: the raw strings are joined, then parsed.\<close>

definition path_div :: "string \<Rightarrow> string \<Rightarrow> path" where
  "path_div a b = parse_path (posix_join a b)"

definition str_path :: "path \<Rightarrow> string" where
  "str_path p =
     (if root p = [] \<and> parts p = [] then ''.'' else root p @ py_join ''/'' (parts p))"

definition path_name :: "path \<Rightarrow> string" where
  "path_name p = (if parts p = [] then [] else last (parts p))"

text \<open>\<open>s.rfind(ch)\<close>, \<open>None\<close> for -1.\<close>

fun rfind :: "char \<Rightarrow> string \<Rightarrow> nat option" where
  "rfind ch [] = None"
| "rfind ch (x # xs) =
     (case rfind ch xs of
        Some i \<Rightarrow> Some (Suc i)
      | None \<Rightarrow> if x = ch then Some 0 else None)"

text \<open>\<open>PurePath.suffix\<close>: from the last dot of the name, unless the dot is first or last.\<close>

definition path_suffix :: "path \<Rightarrow> string" where
  "path_suffix p =
     (let name = path_name p in
      case rfind CHR ''.'' name of
        None \<Rightarrow> []
      | Some i \<Rightarrow> if 0 < i \<and> i + 1 < length name then drop i name else [])"

subsection \<open>Pulling a file\<close>

definition valid_extensions :: "string list" where
  "valid_extensions = [''.log'', ''.json'', ''.mp4'']"

definition admin_pull_file_body :: "world \<Rightarrow> update \<Rightarrow> context_t \<Rightarrow> unit io" where
  "admin_pull_file_body w u c =
     io_bind (io_ask (user_id_str u)) (\<lambda>bot_user_id.
       if not_admin w bot_user_id then send_user w (FAIL_TO_IDENTIFY_USER_AS_ADMIN_TEXT w)
       else if arg_list c = [] \<or> length (arg_list c) \<noteq> 1 then
         io_raise (Exn ValueError ''Invalid number of arguments.'')
       else
         (let file_relative_path = hd (arg_list c);
              data_dir = getenv (USERS_DATA_DIR w) ''/users_data'';
              file_path = path_div data_dir file_relative_path;
              file_name = path_name file_path;
              file_extension = path_suffix file_path
          in if file_extension \<notin> set valid_extensions then
               io_raise (Exn ValueError
                 (''Invalid file extension.'' @ [CHR 0x0A] @ ''Valid: ''
                  @ py_join '', '' valid_extensions))
             else
               io_bind (io_call (FsExists (str_path file_path)) (path_exists w (str_path file_path)))
                 (\<lambda>found.
                    if \<not> found then
                      io_raise (Exn FileNotFoundError
                        (''Invalid file relative path'' @ [CHR 0x27] @ file_relative_path
                         @ [CHR 0x27] @ ''. File not found''))
                    else if app_and_bot (application c) then
                      io_try
                        (io_bind
                           (case effective_chat u of
                              None \<Rightarrow> ([], Inl (Propagated (Exn AttributeError
                                         ([CHR 0x27] @ ''NoneType'' @ [CHR 0x27]
                                          @ '' object has no attribute '' @ [CHR 0x27] @ ''id''
                                          @ [CHR 0x27]))))
                            | Some chat_id \<Rightarrow> io_return chat_id)
                           (\<lambda>chat_id.
                              io_bind (io_call (FsOpen (str_path file_path))
                                         (open_rb w (str_path file_path))) (\<lambda>_.
                                io_call (BotSendDocument chat_id (str_path file_path) file_name)
                                  (bot_send_document w chat_id (str_path file_path) file_name))))
                        (\<lambda>send_err.
                           io_raise (Exn TelegramError
                             (''Failed to send file '' @ [CHR 0x27] @ str_path file_path
                              @ [CHR 0x27] @ '': '' @ str_exn (exn_of send_err))))
                    else io_raise (Exn RuntimeError ''Application or bot instance not available''))))"

definition admin_pull_file_command :: "world \<Rightarrow> update \<Rightarrow> context_t \<Rightarrow> unit io" where
  "admin_pull_file_command w u c =
     io_try (admin_pull_file_body w u c)
       (\<lambda>e. io_bind
              (io_log ''admin_pull_file_command: Failed to execute: '')
              (\<lambda>_. report_to_admin w c
                     (error_report_text ''admin_pull_file_command'' e u)))"

subsection \<open>All handlers\<close>

datatype command =
    Get_users | Get_user_status | Analyze_sourcing_criterias | Send_sourcing_criterias
  | Update_negotiations | Get_fresh_resumes | Analyze_resumes | Update_video_status
  | Recommend_resumes_cmd | Send_message | Pull_file

fun body :: "command \<Rightarrow> world \<Rightarrow> update \<Rightarrow> context_t \<Rightarrow> unit io" where
  "body Get_users = admin_get_users_body"
| "body Get_user_status = admin_get_user_status_body"
| "body Analyze_sourcing_criterias = admin_anazlyze_sourcing_criterais_body"
| "body Send_sourcing_criterias = admin_send_sourcing_criterais_to_user_body"
| "body Update_negotiations = admin_update_negotiations_body"
| "body Get_fresh_resumes = admin_get_fresh_resumes_body"
| "body Analyze_resumes = admin_anazlyze_resumes_body"
| "body Update_video_status = admin_update_resume_records_with_applicants_video_status_body"
| "body Recommend_resumes_cmd = admin_recommend_resumes_body"
| "body Send_message = admin_send_message_body"
| "body Pull_file = admin_pull_file_body"

fun handler :: "command \<Rightarrow> world \<Rightarrow> update \<Rightarrow> context_t \<Rightarrow> unit io" where
  "handler Get_users = admin_get_users_command"
| "handler Get_user_status = admin_get_user_status_command"
| "handler Analyze_sourcing_criterias = admin_anazlyze_sourcing_criterais_command"
| "handler Send_sourcing_criterias = admin_send_sourcing_criterais_to_user_command"
| "handler Update_negotiations = admin_update_negotiations_command"
| "handler Get_fresh_resumes = admin_get_fresh_resumes_command"
| "handler Analyze_resumes = admin_anazlyze_resumes_command"
| "handler Update_video_status = admin_update_resume_records_with_applicants_video_status_command"
| "handler Recommend_resumes_cmd = admin_recommend_resumes_command"
| "handler Send_message = admin_send_message_command"
| "handler Pull_file = admin_pull_file_command"

subsection \<open>The records\<close>

text \<open>
  Modelled from the spec: \<open>is_user_in_records\<close> of \<open>services.status_validation_service\<close>
  is not part of this module. The spec has the records keyed by user identifier, and
  the identifiers the module handles are strings of Telegram user ids; so the lookup
  answers whether its argument is one of the keys, and the keys are decimal strings.
\<close>

definition records_lookup :: "string list \<Rightarrow> string \<Rightarrow> exn + bool" where
  "records_lookup keys r = Inr (r \<in> set keys)"

subsection \<open>Concrete surroundings used to run the handlers\<close>

text \<open>
  Admin id \<open>1\<close>; one user, \<open>7\<close>, in records with every readiness predicate true; every
  collaborator answers without raising; one file under the data root exists.
\<close>

definition demo_world :: world where
  "demo_world =
     \<lparr> ADMIN_ID = Some ''1'',
       USERS_DATA_DIR = None,
       FAIL_TO_IDENTIFY_USER_AS_ADMIN_TEXT = ''You are not an admin.'',
       FAIL_TECHNICAL_SUPPORT_TEXT = ''Technical failure.'',
       send_message_to_user = (\<lambda>t. Inr ()),
       bot_send_message = (\<lambda>n t. Inr ()),
       bot_send_document = (\<lambda>n p f. Inr ()),
       get_list_of_users_from_records = Inr ''[7]'',
       get_target_vacancy_id_from_records = (\<lambda>r. Inr ''v1''),
       is_user_in_records = records_lookup [''7''],
       is_vacancy_description_recieved = (\<lambda>r. Inr True),
       is_vacancy_sourcing_criterias_recieved = (\<lambda>r. Inr True),
       is_vacancy_selected = (\<lambda>r. Inr True),
       is_vacany_data_enough_for_resume_analysis = (\<lambda>r. Inr True),
       run_delegate = (\<lambda>d. Inr ()),
       path_exists = (\<lambda>p. Inr (p = ''/users_data/logs/a.log'')),
       open_rb = (\<lambda>p. Inr ()) \<rparr>"

definition admin_update :: update where
  "admin_update = \<lparr> user_id_str = Inr ''1'', effective_chat = Some 1 \<rparr>"

definition stranger_update :: update where
  "stranger_update = \<lparr> user_id_str = Inr ''2'', effective_chat = Some 2 \<rparr>"

definition ctx :: "string list \<Rightarrow> context_t" where
  "ctx xs = \<lparr> args = Some xs, application = Some (Application True) \<rparr>"

text \<open>The chat transport is down: every send raises.\<close>

definition network_down :: exn where
  "network_down = Exn TelegramError ''Timed out''"

definition offline_world :: world where
  "offline_world =
     demo_world \<lparr> send_message_to_user := (\<lambda>t. Inl network_down),
                  bot_send_message := (\<lambda>n t. Inl network_down),
                  bot_send_document := (\<lambda>n p f. Inl network_down) \<rparr>"

text \<open>No readiness predicate holds for anybody.\<close>

definition unready_world :: world where
  "unready_world =
     demo_world \<lparr> is_vacancy_description_recieved := (\<lambda>r. Inr False),
                  is_vacancy_sourcing_criterias_recieved := (\<lambda>r. Inr False),
                  is_vacancy_selected := (\<lambda>r. Inr False),
                  is_vacany_data_enough_for_resume_analysis := (\<lambda>r. Inr False) \<rparr>"

text \<open>The task running the handler is cancelled: every send raises \<open>CancelledError\<close>.\<close>

definition cancelled :: exn where
  "cancelled = Exn CancelledError []"

definition cancelled_world :: world where
  "cancelled_world =
     demo_world \<lparr> send_message_to_user := (\<lambda>t. Inl cancelled),
                  bot_send_message := (\<lambda>n t. Inl cancelled),
                  bot_send_document := (\<lambda>n p f. Inl cancelled) \<rparr>"

text \<open>A log file of the host outside the data root exists.\<close>

definition host_files_world :: world where
  "host_files_world = demo_world \<lparr> path_exists := (\<lambda>p. Inr (p = ''/etc/app.log'')) \<rparr>"

subsection \<open>Vocabulary of the properties\<close>

fun is_admin_report :: "event \<Rightarrow> bool" where
  "is_admin_report (AdminReport t) = True"
| "is_admin_report ev = False"

fun is_delegate :: "event \<Rightarrow> bool" where
  "is_delegate (Delegate d) = True"
| "is_delegate ev = False"


text \<open>Events that touch the file system or send a document.\<close>

fun is_file_access :: "event \<Rightarrow> bool" where
  "is_file_access (FsExists p) = True"
| "is_file_access (FsOpen p) = True"
| "is_file_access (BotSendDocument n p f) = True"
| "is_file_access ev = False"


text \<open>The readiness-gated commands, with the predicate and the pipeline operation of each.\<close>

fun gated :: "command \<Rightarrow> bool" where
  "gated Get_users = False"
| "gated Get_user_status = False"
| "gated Send_message = False"
| "gated Pull_file = False"
| "gated cmd = True"

fun readiness :: "command \<Rightarrow> world \<Rightarrow> string \<Rightarrow> exn + bool" where
  "readiness Analyze_sourcing_criterias w = is_vacancy_description_recieved w"
| "readiness Send_sourcing_criterias w = is_vacancy_sourcing_criterias_recieved w"
| "readiness Update_negotiations w = is_vacancy_selected w"
| "readiness cmd w = is_vacany_data_enough_for_resume_analysis w"

fun delegate_of :: "command \<Rightarrow> string \<Rightarrow> string \<Rightarrow> delegate" where
  "delegate_of Analyze_sourcing_criterias t v = Define_sourcing_criterias t"
| "delegate_of Send_sourcing_criterias t v = Send_to_user_sourcing_criterias t"
| "delegate_of Update_negotiations t v = Source_negotiations t"
| "delegate_of Get_fresh_resumes t v = Source_resumes t"
| "delegate_of Analyze_resumes t v = Analyze_resume t"
| "delegate_of Update_video_status t v = Update_resume_records_with_fresh_video t v"
| "delegate_of Recommend_resumes_cmd t v = Recommend_resumes t"
| "delegate_of cmd t v = Inform_admin_about_user_readiness t"

text \<open>\<open>PurePath.is_relative_to\<close>: \<open>p\<close> lies, component by component, under \<open>q\<close>.\<close>

definition lies_under :: "path \<Rightarrow> path \<Rightarrow> bool" where
  "lies_under p q = (root p = root q \<and> take (length (parts q)) (parts p) = parts q)"

section \<open>Properties\<close>

subsection \<open>Basic facts about computations\<close>

lemmas io_defs =
  io_return_def io_raise_def io_bind_def io_call_def io_ask_def io_try_def io_log_def
  send_user_def call_delegate_def

lemma fst_io_try:
  "fst (io_try m h) =
     fst m @ (case snd m of
                Inl e \<Rightarrow> if is_exception (exn_of e) then fst (h e) else []
              | Inr x \<Rightarrow> [])"
  by (cases m) (auto simp: io_try_def split: sum.splits prod.splits)

lemma snd_io_try:
  "snd (io_try m h) =
     (case snd m of
        Inl e \<Rightarrow> if is_exception (exn_of e) then snd (h e) else Inl e
      | Inr x \<Rightarrow> Inr x)"
  by (cases m) (auto simp: io_try_def split: sum.splits prod.splits)

lemma fst_io_bind:
  "fst (io_bind m f) = fst m @ (case snd m of Inl e \<Rightarrow> [] | Inr x \<Rightarrow> fst (f x))"
  by (cases m) (auto simp: io_bind_def split: sum.splits prod.splits)

lemma snd_io_bind:
  "snd (io_bind m f) = (case snd m of Inl e \<Rightarrow> Inl e | Inr x \<Rightarrow> snd (f x))"
  by (cases m) (auto simp: io_bind_def split: sum.splits prod.splits)

subsection \<open>The notification helper\<close>

lemma helper_shape:
  "send_message_to_admin w app text = ([], Inr ()) \<or>
   send_message_to_admin w app text =
     ([LogException ''send_message_to_admin: Failed to send admin notification: ''], Inr ()) \<or>
   (\<exists>n. send_message_to_admin w app text = ([BotSendMessage n text], Inr ())) \<or>
   (\<exists>n. send_message_to_admin w app text =
      ([BotSendMessage n text,
        LogException ''send_message_to_admin: Failed to send admin notification: ''], Inr ())) \<or>
   (\<exists>n e. send_message_to_admin w app text = ([BotSendMessage n text], Inl (Propagated e)) \<and>
          \<not> is_exception e \<and> bot_send_message w n text = Inl e)"
  by (auto simp: send_message_to_admin_def io_defs Let_def split: sum.splits option.splits)




subsection \<open>Shape of the handlers\<close>

lemmas body_defs =
  admin_get_users_body_def admin_get_user_status_body_def
  admin_anazlyze_sourcing_criterais_body_def admin_send_sourcing_criterais_to_user_body_def
  admin_update_negotiations_body_def admin_get_fresh_resumes_body_def
  admin_anazlyze_resumes_body_def admin_update_resume_records_with_applicants_video_status_body_def
  admin_recommend_resumes_body_def admin_send_message_body_def admin_pull_file_body_def

lemmas command_defs =
  admin_get_users_command_def admin_get_user_status_command_def
  admin_anazlyze_sourcing_criterais_command_def admin_send_sourcing_criterais_to_user_command_def
  admin_update_negotiations_command_def admin_get_fresh_resumes_command_def
  admin_anazlyze_resumes_command_def admin_update_resume_records_with_applicants_video_status_command_def
  admin_recommend_resumes_command_def admin_send_message_command_def admin_pull_file_command_def

lemma report_shape:
  "(application c = None \<and> report_to_admin w c msg = ([], Inr ())) \<or>
   (application c \<noteq> None \<and>
      (\<exists>tr r. report_to_admin w c msg = (AdminReport msg # tr, r) \<and>
              send_message_to_admin w (application c) msg = (tr, r)))"
  by (cases "send_message_to_admin w (application c) msg")
     (auto simp: report_to_admin_def io_bind_def io_return_def)

lemma report_result:
  "snd (report_to_admin w c msg) = Inl f \<Longrightarrow> \<exists>e. f = Propagated e \<and> \<not> is_exception e"
  using report_shape [of c w msg] helper_shape [of w "application c" msg] by auto

lemma report_files: "filter is_file_access (fst (report_to_admin w c msg)) = []"
  using report_shape [of c w msg] helper_shape [of w "application c" msg] by auto



lemma report_count:
  "filter is_admin_report (fst (report_to_admin w c msg)) =
     (if application c = None then [] else [AdminReport msg])"
  using report_shape [of c w msg] helper_shape [of w "application c" msg] by auto

lemma report_no_delegate: "Delegate d \<notin> set (fst (report_to_admin w c msg))"
  using report_shape [of c w msg] helper_shape [of w "application c" msg] by auto

lemma report_no_open: "FsOpen p \<notin> set (fst (report_to_admin w c msg))"
  using report_shape [of c w msg] helper_shape [of w "application c" msg] by auto

lemma report_no_document: "BotSendDocument n p f \<notin> set (fst (report_to_admin w c msg))"
  using report_shape [of c w msg] helper_shape [of w "application c" msg] by auto

lemma report_bot_message:
  "BotSendMessage n t \<in> set (fst (report_to_admin w c msg)) \<Longrightarrow>
   t = msg \<and> AdminReport msg \<in> set (fst (report_to_admin w c msg))"
  using report_shape [of c w msg] helper_shape [of w "application c" msg] by auto

lemma handler_try:
  "cmd \<noteq> Send_message \<Longrightarrow>
   \<exists>label p. handler cmd w u c =
     io_try (body cmd w u c)
       (\<lambda>e. io_bind (io_log p) (\<lambda>_. report_to_admin w c (error_report_text label e u)))"
  by (cases cmd) (auto simp: command_defs)

lemma sibling_lets_no_exception_out:
  assumes "cmd \<noteq> Send_message" and "snd (handler cmd w u c) = Inl f"
  shows "\<not> is_exception (exn_of f)"
proof -
  obtain label p where h: "handler cmd w u c =
      io_try (body cmd w u c)
        (\<lambda>e. io_bind (io_log p) (\<lambda>_. report_to_admin w c (error_report_text label e u)))"
    using handler_try [OF assms(1)] by blast
  show ?thesis
    using assms(2)
    by (auto simp: h snd_io_try snd_io_bind io_log_def split: sum.splits if_splits
             dest!: report_result)
qed

lemma body_unauth:
  "user_id_str u = Inr uid \<Longrightarrow> not_admin w uid \<Longrightarrow>
   body cmd w u c = send_user w (FAIL_TO_IDENTIFY_USER_AS_ADMIN_TEXT w)"
  by (cases cmd) (simp_all add: body_defs io_bind_def io_ask_def)

lemma not_admin_iff:
  "not_admin w uid \<longleftrightarrow> (ADMIN_ID w = None \<or> ADMIN_ID w = Some [] \<or> ADMIN_ID w \<noteq> Some uid)"
  by (auto simp: not_admin_def getenv_def Let_def split: option.splits)

lemma is_admin:
  "ADMIN_ID w = Some a \<Longrightarrow> a \<noteq> [] \<Longrightarrow> \<not> not_admin w a"
  by (simp add: not_admin_def getenv_def)

lemma one_arg: "args c = Some [t] \<Longrightarrow> arg_list c = [t]"
  by (simp add: arg_list_def)

subsection \<open>Callers other than the admin\<close>

lemma report_bot_reported:
  "BotSendMessage n t \<in> set (fst (report_to_admin w c msg)) \<Longrightarrow>
   AdminReport t \<in> set (fst (report_to_admin w c msg))"
  using report_bot_message by blast

text \<open>
  C1 (as amended). For every handler: when the caller's id resolves to a string and
  \<open>ADMIN_ID\<close> is unset, empty or a different string, the first call of the handler is the
  fixed unauthorized message to the caller; no pipeline operation runs, no file is
  touched, the only bot messages are error reports to the admin (the relay sends
  nothing), and when the unauthorized message is delivered the handler returns having
  done nothing else. Whatever that send does, no handler but the message relay lets an
  exception of class \<open>Exception\<close> out.
\<close>

theorem unauthorized_caller_is_refused:
  assumes uid: "user_id_str u = Inr uid"
      and na: "ADMIN_ID w = None \<or> ADMIN_ID w = Some [] \<or> ADMIN_ID w \<noteq> Some uid"
  shows "(\<exists>rest. fst (handler cmd w u c) = SendUser (FAIL_TO_IDENTIFY_USER_AS_ADMIN_TEXT w) # rest) \<and>
         (\<forall>d. Delegate d \<notin> set (fst (handler cmd w u c))) \<and>
         filter is_file_access (fst (handler cmd w u c)) = [] \<and>
         (\<forall>n t. BotSendMessage n t \<in> set (fst (handler cmd w u c))
                 \<longrightarrow> AdminReport t \<in> set (fst (handler cmd w u c))) \<and>
         (send_message_to_user w (FAIL_TO_IDENTIFY_USER_AS_ADMIN_TEXT w) = Inr ()
            \<longrightarrow> handler cmd w u c = ([SendUser (FAIL_TO_IDENTIFY_USER_AS_ADMIN_TEXT w)], Inr ())) \<and>
         (cmd \<noteq> Send_message \<longrightarrow>
            (\<forall>f. snd (handler cmd w u c) = Inl f \<longrightarrow> \<not> is_exception (exn_of f)))"
proof -
  let ?fail = "FAIL_TO_IDENTIFY_USER_AS_ADMIN_TEXT w"
  have b: "body cmd w u c = send_user w ?fail"
    using body_unauth [OF uid] na not_admin_iff by blast
  have last: "cmd \<noteq> Send_message \<longrightarrow>
            (\<forall>f. snd (handler cmd w u c) = Inl f \<longrightarrow> \<not> is_exception (exn_of f))"
    using sibling_lets_no_exception_out by blast
  have main: "(\<exists>rest. fst (handler cmd w u c) = SendUser ?fail # rest) \<and>
         (\<forall>d. Delegate d \<notin> set (fst (handler cmd w u c))) \<and>
         filter is_file_access (fst (handler cmd w u c)) = [] \<and>
         (\<forall>n t. BotSendMessage n t \<in> set (fst (handler cmd w u c))
                 \<longrightarrow> AdminReport t \<in> set (fst (handler cmd w u c))) \<and>
         (send_message_to_user w ?fail = Inr ()
            \<longrightarrow> handler cmd w u c = ([SendUser ?fail], Inr ()))"
  proof (cases "cmd = Send_message")
    case False
    then obtain label p where h: "handler cmd w u c =
        io_try (send_user w ?fail)
          (\<lambda>e. io_bind (io_log p) (\<lambda>_. report_to_admin w c (error_report_text label e u)))"
      using handler_try [of cmd w u c] b by auto
    show ?thesis
    proof (cases "send_message_to_user w ?fail")
      case (Inr x)
      then show ?thesis using h by (simp add: io_defs)
    next
      case (Inl e)
      have tr: "fst (handler cmd w u c) =
          SendUser ?fail #
            (if is_exception e
             then LogException p # fst (report_to_admin w c (error_report_text label (Propagated e) u))
             else [])"
        using Inl by (simp add: h fst_io_try fst_io_bind send_user_def io_call_def io_log_def)
      show ?thesis
        using Inl
        by (auto simp: tr report_no_delegate report_files dest: report_bot_reported)
    qed
  next
    case True
    let ?msg = "\<lambda>e. warning_sign @ '' Error executing admin_send_message_to_user command: ''
                 @ str_exn (exn_of e) @ [CHR 0x0A] @ ''Admin ID: '' @ caller_or_unknown u"
    have h: "handler cmd w u c = io_try (send_user w ?fail)
       (\<lambda>e. io_bind (io_log ''Failed to execute admin_send_message_to_user command: '') (\<lambda>_.
            io_bind (send_user w (FAIL_TECHNICAL_SUPPORT_TEXT w)) (\<lambda>_.
              report_to_admin w c (?msg e))))"
      using True b by (simp add: admin_send_message_command_def)
    show ?thesis
    proof (cases "send_message_to_user w ?fail")
      case (Inr x)
      then show ?thesis using h by (simp add: io_defs)
    next
      case (Inl e)
      have tr: "fst (handler cmd w u c) =
          SendUser ?fail #
            (if is_exception e
             then LogException ''Failed to execute admin_send_message_to_user command: ''
                  # SendUser (FAIL_TECHNICAL_SUPPORT_TEXT w)
                  # (case send_message_to_user w (FAIL_TECHNICAL_SUPPORT_TEXT w) of
                       Inl e' \<Rightarrow> []
                     | Inr x \<Rightarrow> fst (report_to_admin w c (?msg (Propagated e))))
             else [])"
        using Inl
        by (simp add: h fst_io_try fst_io_bind snd_io_bind send_user_def io_call_def io_log_def
                 split: sum.splits)
      show ?thesis
        using Inl
        by (auto simp: tr report_no_delegate report_files split: sum.splits
                 dest: report_bot_reported)
    qed
  qed
  show ?thesis using main last by blast
qed

theorem unauthorized_caller_is_refused_witness:
  "user_id_str stranger_update = Inr ''2'' \<and> ADMIN_ID demo_world \<noteq> Some ''2'' \<and>
   send_message_to_user demo_world (FAIL_TO_IDENTIFY_USER_AS_ADMIN_TEXT demo_world) = Inr () \<and>
   handler Get_fresh_resumes demo_world stranger_update (ctx [''7''])
     = ([SendUser ''You are not an admin.''], Inr ())"
  using unauthorized_caller_is_refused
          [of stranger_update "''2''" demo_world Get_fresh_resumes "ctx [''7'']"]
  by (simp add: demo_world_def stranger_update_def)

text \<open>
  The claim as written fails when the task is cancelled while the unauthorized message
  is being sent: the \<open>CancelledError\<close> is no \<open>Exception\<close>, the \<open>except\<close> clause lets it pass
  and the handler does not return.
\<close>

theorem unauthorized_cancelled_counterexample:
  "user_id_str stranger_update = Inr ''2'' \<and> ADMIN_ID cancelled_world = Some ''1'' \<and>
   handler Get_users cancelled_world stranger_update (ctx []) =
     ([SendUser ''You are not an admin.''], Inl (Propagated cancelled))"
  by code_simp

subsection \<open>The confirmation of the recommend-resumes command\<close>

text \<open>
  C10. When the admin runs the recommend-resumes command for a user in records whose
  vacancy data suffice and the pipeline operation returns, the handler next sends the
  caller the text \<open>Recommending resumes is triggered for user {target_user_id}.\<close>, braces
  and placeholder name included, whatever the target user id is; if that send returns,
  these two calls are all the handler does.
\<close>

theorem recommend_resumes_confirmation_is_literal:
  assumes "user_id_str u = Inr a" and "ADMIN_ID w = Some a" and "a \<noteq> []"
      and "args c = Some [t]" and "t \<noteq> []"
      and "is_user_in_records w t = Inr True"
      and "is_vacany_data_enough_for_resume_analysis w t = Inr True"
      and "run_delegate w (Recommend_resumes t) = Inr ()"
  shows "(\<exists>rest. fst (admin_recommend_resumes_command w u c) =
            [Delegate (Recommend_resumes t),
             SendUser ''Recommending resumes is triggered for user {target_user_id}.''] @ rest) \<and>
         (send_message_to_user w ''Recommending resumes is triggered for user {target_user_id}.''
            = Inr () \<longrightarrow>
          admin_recommend_resumes_command w u c =
            ([Delegate (Recommend_resumes t),
              SendUser ''Recommending resumes is triggered for user {target_user_id}.''], Inr ()))"
proof -
  let ?confirmation = "''Recommending resumes is triggered for user {target_user_id}.''"
  have b: "admin_recommend_resumes_body w u c =
             io_bind (call_delegate w (Recommend_resumes t)) (\<lambda>_. send_user w ?confirmation)"
    using assms is_admin [of w a] one_arg [of c t]
    by (simp add: admin_recommend_resumes_body_def io_bind_def io_ask_def)
  have tr: "fst (admin_recommend_resumes_body w u c) =
              [Delegate (Recommend_resumes t), SendUser ?confirmation]"
    using assms(8) by (simp add: b fst_io_bind call_delegate_def send_user_def io_call_def)
  show ?thesis
  proof (cases "send_message_to_user w ?confirmation")
    case (Inr x)
    then show ?thesis using b assms(8)
      by (simp add: admin_recommend_resumes_command_def io_defs)
  next
    case (Inl e)
    then show ?thesis
      by (simp add: admin_recommend_resumes_command_def fst_io_try tr)
  qed
qed

theorem recommend_resumes_confirmation_is_literal_witness:
  "user_id_str admin_update = Inr ''1'' \<and> ADMIN_ID demo_world = Some ''1'' \<and>
   args (ctx [''7'']) = Some [''7''] \<and>
   is_user_in_records demo_world ''7'' = Inr True \<and>
   is_vacany_data_enough_for_resume_analysis demo_world ''7'' = Inr True \<and>
   run_delegate demo_world (Recommend_resumes ''7'') = Inr () \<and>
   admin_recommend_resumes_command demo_world admin_update (ctx [''7'']) =
     ([Delegate (Recommend_resumes ''7''),
       SendUser ''Recommending resumes is triggered for user {target_user_id}.''], Inr ())"
  using recommend_resumes_confirmation_is_literal
          [of admin_update "''1''" demo_world "ctx [''7'']" "''7''"]
  by (simp add: demo_world_def admin_update_def ctx_def records_lookup_def)

subsection \<open>File pull: the extension check comes first\<close>

text \<open>
  C3. When the pull-file command has one argument and the suffix of the resolved path is
  none of \<open>.log\<close>, \<open>.json\<close>, \<open>.mp4\<close>, the handler makes no existence check, opens no file
  and sends no document, whoever calls; for the admin the \<open>try\<close> block ends in the
  \<open>ValueError\<close> that lists the valid extensions.
\<close>

theorem pull_file_bad_extension_never_touches_files:
  assumes "args c = Some [rel]"
      and "path_suffix (path_div (getenv (USERS_DATA_DIR w) ''/users_data'') rel)
             \<notin> {''.log'', ''.json'', ''.mp4''}"
  shows "filter is_file_access (fst (admin_pull_file_command w u c)) = [] \<and>
         (user_id_str u = Inr a \<and> ADMIN_ID w = Some a \<and> a \<noteq> [] \<longrightarrow>
            admin_pull_file_body w u c =
              ([], Inl (Raised (Exn ValueError
                 (''Invalid file extension.'' @ [CHR 0x0A] @ ''Valid: .log, .json, .mp4'')))))"
proof -
  have body_cases:
    "admin_pull_file_body w u c =
       (case user_id_str u of
          Inl e \<Rightarrow> ([], Inl (Propagated e))
        | Inr b \<Rightarrow>
            if not_admin w b then send_user w (FAIL_TO_IDENTIFY_USER_AS_ADMIN_TEXT w)
            else ([], Inl (Raised (Exn ValueError
                   (''Invalid file extension.'' @ [CHR 0x0A] @ ''Valid: .log, .json, .mp4'')))))"
    using assms one_arg [of c rel]
    by (simp add: admin_pull_file_body_def io_bind_def io_ask_def io_raise_def Let_def
                  valid_extensions_def split: sum.splits)
  have "filter is_file_access (fst (admin_pull_file_command w u c)) = []"
    by (simp add: admin_pull_file_command_def fst_io_try fst_io_bind body_cases report_files
                  send_user_def io_call_def io_log_def split: sum.splits)
  moreover have "user_id_str u = Inr a \<and> ADMIN_ID w = Some a \<and> a \<noteq> [] \<longrightarrow>
            admin_pull_file_body w u c =
              ([], Inl (Raised (Exn ValueError
                 (''Invalid file extension.'' @ [CHR 0x0A] @ ''Valid: .log, .json, .mp4''))))"
    using is_admin [of w a] by (auto simp: body_cases)
  ultimately show ?thesis by blast
qed

theorem pull_file_bad_extension_never_touches_files_witness:
  "args (ctx [''logs/x.exe'']) = Some [''logs/x.exe''] \<and>
   path_suffix (path_div (getenv (USERS_DATA_DIR demo_world) ''/users_data'') ''logs/x.exe'')
     = ''.exe'' \<and>
   filter is_file_access (fst (admin_pull_file_command demo_world admin_update (ctx [''logs/x.exe''])))
     = [] \<and>
   admin_pull_file_body demo_world admin_update (ctx [''logs/x.exe'']) =
     ([], Inl (Raised (Exn ValueError
        (''Invalid file extension.'' @ [CHR 0x0A] @ ''Valid: .log, .json, .mp4''))))"
  using pull_file_bad_extension_never_touches_files
          [of "ctx [''logs/x.exe'']" "''logs/x.exe''" demo_world admin_update "''1''"]
  by (simp add: demo_world_def admin_update_def ctx_def getenv_def path_div_def posix_join_def
                parse_path_def splitroot_def path_suffix_def path_name_def)

subsection \<open>File pull: a path that does not exist\<close>

text \<open>
  C2 (as amended). When the admin calls the pull-file command with one argument and the
  existence check on the resolved path answers no, the \<open>try\<close> block ends in the
  invalid-extension \<open>ValueError\<close> or in the \<open>FileNotFoundError\<close> naming the argument; no
  file is opened and no document is sent; the error is logged, and, when the context
  has an application, \<open>send_message_to_admin\<close> is called once with it; no exception of
  class \<open>Exception\<close> leaves the handler. Nothing in the handler compares the resolved
  path with the data root.
\<close>

theorem pull_file_missing_path_is_reported:
  assumes "user_id_str u = Inr a" and "ADMIN_ID w = Some a" and "a \<noteq> []"
      and "args c = Some [rel]"
      and "path_exists w (str_path (path_div (getenv (USERS_DATA_DIR w) ''/users_data'') rel))
             = Inr False"
  shows "\<exists>e. snd (admin_pull_file_body w u c) = Inl (Raised e) \<and>
             (e = Exn ValueError (''Invalid file extension.'' @ [CHR 0x0A]
                                  @ ''Valid: .log, .json, .mp4'') \<or>
              e = Exn FileNotFoundError (''Invalid file relative path'' @ [CHR 0x27] @ rel
                                         @ [CHR 0x27] @ ''. File not found'')) \<and>
             (\<forall>p. FsOpen p \<notin> set (fst (admin_pull_file_command w u c))) \<and>
             (\<forall>n p f. BotSendDocument n p f \<notin> set (fst (admin_pull_file_command w u c))) \<and>
             LogException ''admin_pull_file_command: Failed to execute: ''
               \<in> set (fst (admin_pull_file_command w u c)) \<and>
             filter is_admin_report (fst (admin_pull_file_command w u c)) =
               (if application c = None then []
                else [AdminReport (error_report_text ''admin_pull_file_command'' (Raised e) u)]) \<and>
             (\<forall>f. snd (admin_pull_file_command w u c) = Inl f \<longrightarrow> \<not> is_exception (exn_of f))"
proof -
  let ?p = "path_div (getenv (USERS_DATA_DIR w) ''/users_data'') rel"
  let ?bad = "Exn ValueError (''Invalid file extension.'' @ [CHR 0x0A] @ ''Valid: .log, .json, .mp4'')"
  let ?missing = "Exn FileNotFoundError (''Invalid file relative path'' @ [CHR 0x27] @ rel
                                         @ [CHR 0x27] @ ''. File not found'')"
  have b: "admin_pull_file_body w u c =
             (if path_suffix ?p \<notin> set valid_extensions then ([], Inl (Raised ?bad))
              else ([FsExists (str_path ?p)], Inl (Raised ?missing)))"
    using assms is_admin [of w a] one_arg [of c rel]
    by (simp add: admin_pull_file_body_def io_defs Let_def valid_extensions_def)
  have out: "\<forall>f. snd (admin_pull_file_command w u c) = Inl f \<longrightarrow> \<not> is_exception (exn_of f)"
    using sibling_lets_no_exception_out [of Pull_file w u c] by simp
  show ?thesis
  proof (cases "path_suffix ?p \<notin> set valid_extensions")
    case True
    then have "admin_pull_file_body w u c = ([], Inl (Raised ?bad))" using b by simp
    then show ?thesis using out
      by (simp add: admin_pull_file_command_def fst_io_try fst_io_bind io_log_def report_count
                    report_no_open report_no_document)
  next
    case False
    then have "admin_pull_file_body w u c = ([FsExists (str_path ?p)], Inl (Raised ?missing))"
      using b by simp
    then show ?thesis using out
      by (simp add: admin_pull_file_command_def fst_io_try fst_io_bind io_log_def report_count
                    report_no_open report_no_document)
  qed
qed

theorem pull_file_missing_path_is_reported_witness:
  "user_id_str admin_update = Inr ''1'' \<and> ADMIN_ID demo_world = Some ''1'' \<and>
   args (ctx [''logs/b.log'']) = Some [''logs/b.log''] \<and>
   path_exists demo_world
     (str_path (path_div (getenv (USERS_DATA_DIR demo_world) ''/users_data'') ''logs/b.log''))
     = Inr False \<and>
   (\<exists>e. snd (admin_pull_file_body demo_world admin_update (ctx [''logs/b.log''])) = Inl (Raised e)) \<and>
   LogException ''admin_pull_file_command: Failed to execute: ''
     \<in> set (fst (admin_pull_file_command demo_world admin_update (ctx [''logs/b.log''])))"
proof -
  have ex: "path_exists demo_world
     (str_path (path_div (getenv (USERS_DATA_DIR demo_world) ''/users_data'') ''logs/b.log''))
     = Inr False"
    by code_simp
  have pre: "user_id_str admin_update = Inr ''1''" "ADMIN_ID demo_world = Some ''1''"
    "args (ctx [''logs/b.log'']) = Some [''logs/b.log'']"
    by (simp_all add: admin_update_def demo_world_def ctx_def)
  show ?thesis
    using pull_file_missing_path_is_reported
            [of admin_update "''1''" demo_world "ctx [''logs/b.log'']" "''logs/b.log''"] ex pre
    by auto
qed

text \<open>
  The claim as written fails for a path outside the data root: an absolute argument
  replaces the data root in the join, and the existing host file is opened and sent
  without any report.
\<close>

theorem pull_file_outside_data_root_counterexample:
  "\<not> lies_under (path_div ''/users_data'' ''/etc/app.log'') (parse_path ''/users_data'') \<and>
   admin_pull_file_command host_files_world admin_update (ctx [''/etc/app.log'']) =
     ([FsExists ''/etc/app.log'', FsOpen ''/etc/app.log'',
       BotSendDocument 1 ''/etc/app.log'' ''app.log''], Inr ())"
  by code_simp

subsection \<open>The message of an unmet readiness predicate\<close>

text \<open>
  C8. With the admin calling for user \<open>7\<close>, who is in records, and no readiness predicate
  true: the update-negotiations handler (gated by \<open>is_vacancy_selected\<close>) and the
  send-sourcing-criteria handler (gated by \<open>is_vacancy_sourcing_criterias_recieved\<close>)
  raise the very message of the resume handlers, about vacancy data for resume
  analysis, while the analyze-sourcing-criteria handler names its own precondition.
\<close>

theorem unmet_precondition_message_is_copied:
  "admin_update_negotiations_body unready_world admin_update (ctx [''7'']) =
     ([], Inl (Raised (Exn ValueError
        ''User 7 does not have enough vacancy data for resume analysis.''))) \<and>
   admin_send_sourcing_criterais_to_user_body unready_world admin_update (ctx [''7'']) =
     ([], Inl (Raised (Exn ValueError
        ''User 7 does not have enough vacancy data for resume analysis.''))) \<and>
   admin_get_fresh_resumes_body unready_world admin_update (ctx [''7'']) =
     ([], Inl (Raised (Exn ValueError
        ''User 7 does not have enough vacancy data for resume analysis.''))) \<and>
   admin_anazlyze_sourcing_criterais_body unready_world admin_update (ctx [''7'']) =
     ([], Inl (Raised (Exn ValueError
        ''User 7 does not have vacancy description received.'')))"
  by (simp add: body_defs io_defs unready_world_def demo_world_def admin_update_def ctx_def
                not_admin_def getenv_def arg_list_def records_lookup_def)

subsection \<open>Readiness gates\<close>

text \<open>
  C4 (as amended). For each of the seven readiness-gated commands called with one
  argument: a pipeline operation is called only if the command's readiness predicate
  returns true for that user, and it is the command's own operation on that user (for
  the video-status update, with the vacancy id the lookup returned). Conversely, when
  the admin calls with a non-empty argument that \<open>is_user_in_records\<close> accepts and the
  predicate returns true, the operation is called, provided, for analyze-resumes, that
  the "start" message to the caller is delivered and, for the video-status update, that
  the lookup of the target vacancy id returns: both come before the operation.
\<close>

theorem gated_delegate_iff_ready:
  assumes "gated cmd" and "args c = Some [t]"
  shows "(\<forall>d. Delegate d \<in> set (fst (handler cmd w u c)) \<longrightarrow>
            readiness cmd w t = Inr True \<and>
            (\<exists>v. d = delegate_of cmd t v \<and>
                 (cmd = Update_video_status \<longrightarrow> get_target_vacancy_id_from_records w t = Inr v))) \<and>
         (user_id_str u = Inr a \<and> ADMIN_ID w = Some a \<and> a \<noteq> [] \<and> t \<noteq> [] \<and>
          is_user_in_records w t = Inr True \<and> readiness cmd w t = Inr True \<and>
          (cmd = Analyze_resumes \<longrightarrow>
             send_message_to_user w
               (''Start creating tasks for analysis of the fresh resumes for user '' @ t @ ''.'')
             = Inr ()) \<and>
          (cmd = Update_video_status \<longrightarrow> get_target_vacancy_id_from_records w t = Inr v)
          \<longrightarrow> Delegate (delegate_of cmd t v) \<in> set (fst (handler cmd w u c)))"
proof -
  have arg: "arg_list c = [t]" using assms(2) by (rule one_arg)
  note unfold = command_defs body_defs fst_io_try fst_io_bind snd_io_bind io_return_def
    io_raise_def io_call_def io_ask_def io_log_def send_user_def call_delegate_def
    report_no_delegate
  have only_if: "readiness cmd w t = Inr True \<and>
            (\<exists>v. d = delegate_of cmd t v \<and>
                 (cmd = Update_video_status \<longrightarrow> get_target_vacancy_id_from_records w t = Inr v))"
    if "Delegate d \<in> set (fst (handler cmd w u c))" for d
  proof (cases cmd)
    case Analyze_sourcing_criterias
    then show ?thesis using that arg
      by (auto simp: unfold split: sum.splits if_splits)
  next
    case Send_sourcing_criterias
    then show ?thesis using that arg
      by (auto simp: unfold split: sum.splits if_splits)
  next
    case Update_negotiations
    then show ?thesis using that arg
      by (auto simp: unfold split: sum.splits if_splits)
  next
    case Get_fresh_resumes
    then show ?thesis using that arg
      by (auto simp: unfold split: sum.splits if_splits)
  next
    case Analyze_resumes
    then show ?thesis using that arg
      by (auto simp: unfold split: sum.splits if_splits)
  next
    case Update_video_status
    then show ?thesis using that arg
      by (auto simp: unfold split: sum.splits if_splits)
  next
    case Recommend_resumes_cmd
    then show ?thesis using that arg
      by (auto simp: unfold split: sum.splits if_splits)
  qed (use assms(1) in simp_all)
  have "if": "Delegate (delegate_of cmd t v) \<in> set (fst (handler cmd w u c))"
    if h: "user_id_str u = Inr a \<and> ADMIN_ID w = Some a \<and> a \<noteq> [] \<and> t \<noteq> [] \<and>
          is_user_in_records w t = Inr True \<and> readiness cmd w t = Inr True \<and>
          (cmd = Analyze_resumes \<longrightarrow>
             send_message_to_user w
               (''Start creating tasks for analysis of the fresh resumes for user '' @ t @ ''.'')
             = Inr ()) \<and>
          (cmd = Update_video_status \<longrightarrow> get_target_vacancy_id_from_records w t = Inr v)"
  proof -
    have adm: "\<not> not_admin w a" using h is_admin by blast
    show ?thesis
      using assms(1) h adm arg
      by (cases cmd) (simp_all add: unfold)
  qed
  show ?thesis using only_if "if" by blast
qed

theorem gated_delegate_iff_ready_witness:
  "gated Analyze_resumes \<and> args (ctx [''7'']) = Some [''7''] \<and>
   user_id_str admin_update = Inr ''1'' \<and> ADMIN_ID demo_world = Some ''1'' \<and>
   is_user_in_records demo_world ''7'' = Inr True \<and>
   readiness Analyze_resumes demo_world ''7'' = Inr True \<and>
   send_message_to_user demo_world
     (''Start creating tasks for analysis of the fresh resumes for user '' @ ''7'' @ ''.'')
     = Inr () \<and>
   Delegate (Analyze_resume ''7'')
     \<in> set (fst (handler Analyze_resumes demo_world admin_update (ctx [''7'']))) \<and>
   readiness Analyze_resumes unready_world ''7'' = Inr False \<and>
   Delegate (Analyze_resume ''7'')
     \<notin> set (fst (handler Analyze_resumes unready_world admin_update (ctx [''7''])))"
proof -
  have pre: "gated Analyze_resumes" "args (ctx [''7'']) = Some [''7'']"
    "user_id_str admin_update = Inr ''1''" "ADMIN_ID demo_world = Some ''1''"
    "is_user_in_records demo_world ''7'' = Inr True"
    "readiness Analyze_resumes demo_world ''7'' = Inr True"
    "send_message_to_user demo_world
       (''Start creating tasks for analysis of the fresh resumes for user '' @ ''7'' @ ''.'')
       = Inr ()"
    "readiness Analyze_resumes unready_world ''7'' = Inr False"
    by (simp_all add: admin_update_def demo_world_def unready_world_def ctx_def
                      records_lookup_def)
  show ?thesis
    using gated_delegate_iff_ready
            [of Analyze_resumes "ctx [''7'']" "''7''" demo_world admin_update "''1''" "''v1''"]
          gated_delegate_iff_ready
            [of Analyze_resumes "ctx [''7'']" "''7''" unready_world admin_update "''1''" "''v1''"]
          pre
    by auto
qed

text \<open>
  The claim as written fails when the transport is down: the readiness predicate is true,
  yet the analyze-resumes handler stops at its "start" message and never reaches the
  pipeline operation.
\<close>

theorem gated_delegate_counterexample:
  "is_user_in_records offline_world ''7'' = Inr True \<and>
   readiness Analyze_resumes offline_world ''7'' = Inr True \<and>
   filter is_delegate (fst (handler Analyze_resumes offline_world admin_update (ctx [''7'']))) = []"
  by code_simp

subsection \<open>Arguments of the commands that take a user id\<close>





subsection \<open>The \<open>except\<close> clause of the handlers\<close>

lemma body_no_admin_report: "filter is_admin_report (fst (body cmd w u c)) = []"
  by (cases cmd)
     (auto simp: body_defs fst_io_bind fst_io_try io_return_def io_raise_def io_call_def
                 io_ask_def io_log_def send_user_def call_delegate_def Let_def
           split: sum.splits option.splits)

text \<open>
  What every handler but the message relay does with an \<open>Exception\<close> of its \<open>try\<close> block:
  it logs it with its stack trace and, when the context has an application, calls
  \<open>send_message_to_admin\<close> exactly once with the exception's text and the caller's id, or
  \<open>unknown\<close> when the id could not be resolved; no \<open>Exception\<close> leaves the handler.
\<close>

lemma sibling_failure_is_logged_and_reported:
  assumes "cmd \<noteq> Send_message" and "snd (body cmd w u c) = Inl f" and "is_exception (exn_of f)"
  shows "(\<exists>label. filter is_admin_report (fst (handler cmd w u c)) =
            (if application c = None then []
             else [AdminReport
                     (warning_sign @ '' Error '' @ label @ '': '' @ str_exn (exn_of f)
                      @ [CHR 0x0A] @ ''Admin ID: ''
                      @ (case user_id_str u of Inl e \<Rightarrow> ''unknown'' | Inr s \<Rightarrow> s))])) \<and>
         (\<exists>p. LogException p \<in> set (fst (handler cmd w u c))) \<and>
         (\<forall>g. snd (handler cmd w u c) = Inl g \<longrightarrow> \<not> is_exception (exn_of g))"
proof -
  obtain label p where h: "handler cmd w u c =
      io_try (body cmd w u c)
        (\<lambda>e. io_bind (io_log p) (\<lambda>_. report_to_admin w c (error_report_text label e u)))"
    using handler_try [OF assms(1)] by blast
  have "filter is_admin_report (fst (handler cmd w u c)) =
      (if application c = None then [] else [AdminReport (error_report_text label f u)])"
    using assms(2,3)
    by (simp add: h fst_io_try fst_io_bind io_log_def report_count body_no_admin_report)
  moreover have "LogException p \<in> set (fst (handler cmd w u c))"
    using assms(2,3) by (simp add: h fst_io_try fst_io_bind io_log_def)
  moreover have "\<forall>g. snd (handler cmd w u c) = Inl g \<longrightarrow> \<not> is_exception (exn_of g)"
    using sibling_lets_no_exception_out [OF assms(1)] by blast
  ultimately show ?thesis
    unfolding error_report_text_def caller_or_unknown_def by blast
qed

text \<open>
  C6. The relay at the failing input: the admin relays \<open>hello\<close> to user \<open>555\<close> while the
  chat transport is down. The send fails with an \<open>Exception\<close>; the \<open>except\<close> clause of the
  handler logs it and then sends the caller the technical-failure notice, outside any
  \<open>try\<close>; that send fails too, the exception leaves the handler, and
  \<open>send_message_to_admin\<close> is never called. A sibling handler in the same world returns
  and reports once.
\<close>

theorem relay_failure_is_not_reported:
  "is_exception network_down \<and>
   handler Send_message offline_world admin_update (ctx [''555'', ''hello'']) =
     ([BotSendMessage 555 ''hello'',
       SendUser (message_failed_prefix @ ''555: Timed out''),
       LogException ''Failed to execute admin_send_message_to_user command: '',
       SendUser ''Technical failure.''],
      Inl (Propagated network_down)) \<and>
   snd (handler Get_fresh_resumes offline_world admin_update (ctx [''7''])) = Inr () \<and>
   length (filter is_admin_report
             (fst (handler Get_fresh_resumes offline_world admin_update (ctx [''7''])))) = 1"
  by code_simp

subsection \<open>What a validation failure tells the caller\<close>






end
